theory Spec2Isabelle
  imports Complex_Main "HOL-Library.AList"
begin

section \<open>Conventions of the embedding\<close>

text \<open>
  The Python sources are embedded shallowly. A Python \<open>float\<close> is read as a real number
  (rounding is not modelled; the literals \<open>1.0\<close> and \<open>0.0\<close> are written
  \<open>1\<close> and \<open>0\<close>), an \<open>Enum\<close> is a datatype, a \<open>dataclass\<close> or a class with
  attributes is a record, and a \<open>dict\<close> is an association list in insertion order
  (\<open>map_of\<close> reads it, \<open>AList.update\<close> stores or appends a key, \<open>AList.map_entry\<close>
  rewrites the value of a key that is present). Mutation is explicit state passing, a raised
  exception is the left summand of a result. What an agent's \<open>make_decision\<close> and the
  module \<open>random\<close> return is an input of the model.
\<close>

datatype error =
  ValueError string
  | ZeroDivisionError
  | KeyError string
  | IndexError

text \<open>Python's true division: \<open>a / b\<close> raises on a zero divisor.\<close>

definition py_truediv :: "real \<Rightarrow> real \<Rightarrow> error + real" where
  "py_truediv a b = (if b = 0 then Inl ZeroDivisionError else Inr (a / b))"

text \<open>The slice \<open>xs[-n:]\<close> for a positive \<open>n\<close>: the last \<open>n\<close> elements, or all of them.\<close>

definition py_last_n :: "nat \<Rightarrow> 'a list \<Rightarrow> 'a list" where
  "py_last_n n xs = drop (length xs - n) xs"

section \<open>agents/types.py\<close>

datatype AgentAction = COOPERATE | DEFECT | SHARE_KNOWLEDGE | WITHHOLD_KNOWLEDGE

record GameDecision =
  action :: AgentAction
  reasoning :: string
  confidence :: real
  knowledge_to_share :: "string list option"

section \<open>game\_theory/payoff.py\<close>

record RewardMatrix =
  cooperate_cooperate :: "real \<times> real"
  cooperate_defect :: "real \<times> real"
  defect_cooperate :: "real \<times> real"
  defect_defect :: "real \<times> real"

definition prisoner_dilemma :: RewardMatrix where
  "prisoner_dilemma =
     \<lparr>cooperate_cooperate = (3, 3), cooperate_defect = (0, 5),
      defect_cooperate = (5, 0), defect_defect = (1, 1)\<rparr>"

definition get_payoffs :: "RewardMatrix \<Rightarrow> AgentAction \<Rightarrow> AgentAction \<Rightarrow> real \<times> real" where
  "get_payoffs m action1 action2 =
     (let coop1 = (action1 \<in> set [COOPERATE, SHARE_KNOWLEDGE]);
          coop2 = (action2 \<in> set [COOPERATE, SHARE_KNOWLEDGE])
      in if coop1 \<and> coop2 then cooperate_cooperate m
         else if coop1 \<and> \<not> coop2 then cooperate_defect m
         else if \<not> coop1 \<and> coop2 then defect_cooperate m
         else defect_defect m)"

definition calculate_round_payoffs ::
  "RewardMatrix \<Rightarrow> AgentAction \<Rightarrow> AgentAction \<Rightarrow> real \<times> real" where
  "calculate_round_payoffs m agent1_action agent2_action =
     get_payoffs m agent1_action agent2_action"

definition calculate_cooperation_rate :: "AgentAction list \<Rightarrow> error + real" where
  "calculate_cooperation_rate actions =
     (if actions = [] then Inr 0
      else
        let cooperative_actions =
              sum_list [1::int. a \<leftarrow> actions, a \<in> set [COOPERATE, SHARE_KNOWLEDGE]]
        in py_truediv (of_int cooperative_actions) (of_nat (length actions)))"

section \<open>agents/base\_agent.py\<close>

record AgentState =
  trust_scores :: "(string \<times> real) list"
  knowledge_base :: "string list"
  cooperation_history :: "(string \<times> AgentAction) list"
  payoff_history :: "real list"
  reputation :: real

text \<open>\<open>AgentState()\<close> with the dataclass defaults.\<close>

definition AgentState_init :: AgentState where
  "AgentState_init =
     \<lparr>trust_scores = [], knowledge_base = [], cooperation_history = [],
      payoff_history = [], reputation = 0.5\<rparr>"

text \<open>
  \<open>AgentState.update_trust\<close>. The three statements of the source in order: insert the
  default for an unknown peer, move the peer's own entry, then visit every key of the dict
  once and scale the entries of the other peers.
\<close>

definition update_trust :: "AgentState \<Rightarrow> string \<Rightarrow> bool \<Rightarrow> real \<Rightarrow> AgentState" where
  "update_trust s agent_id cooperation decay_rate =
     (let ts0 = (if agent_id \<notin> fst ` set (trust_scores s)
                 then AList.update agent_id 0.5 (trust_scores s)
                 else trust_scores s);
          ts1 = (if cooperation
                 then AList.map_entry agent_id (\<lambda>v. min 1 (v + 0.1)) ts0
                 else AList.map_entry agent_id (\<lambda>v. max 0 (v - 0.2)) ts0);
          ts2 = map (\<lambda>(agent, v). if agent \<noteq> agent_id
                                      then (agent, v * (1 - decay_rate))
                                      else (agent, v)) ts1
      in s\<lparr>trust_scores := ts2\<rparr>)"

record BaseGameAgent =
  name :: string
  strategy :: string
  cooperation_threshold :: real
  trust_threshold :: real
  state :: AgentState

definition get_trust_score :: "BaseGameAgent \<Rightarrow> string \<Rightarrow> real" where
  "get_trust_score self agent_id =
     (case map_of (trust_scores (state self)) agent_id of None \<Rightarrow> 0.5 | Some v \<Rightarrow> v)"

text \<open>
  \<open>BaseGameAgent.update_state\<close>. The history has just been appended to, so the guard
  \<open>len(payoff_history) > 0\<close> holds and the divisor \<open>min(10, len(payoff_history))\<close> is at
  least one; \<open>update_trust\<close> runs with its default decay rate.
\<close>

definition update_state ::
  "BaseGameAgent \<Rightarrow> string \<Rightarrow> AgentAction \<Rightarrow> real \<Rightarrow> AgentAction \<Rightarrow> BaseGameAgent" where
  "update_state self opponent_id opponent_action payoff my_action =
     (let cooperation = (opponent_action \<in> set [COOPERATE, SHARE_KNOWLEDGE]);
          s1 = update_trust (state self) opponent_id cooperation 0.1;
          s2 = s1\<lparr>cooperation_history := cooperation_history s1 @ [(opponent_id, opponent_action)]\<rparr>;
          s3 = s2\<lparr>payoff_history := payoff_history s2 @ [payoff]\<rparr>;
          s4 = (if length (payoff_history s3) > 0
                then
                  let avg_payoff = sum_list (py_last_n 10 (payoff_history s3))
                                   / of_nat (min 10 (length (payoff_history s3)))
                  in s3\<lparr>reputation := max 0 (min 1 (avg_payoff / 5))\<rparr>
                else s3)
      in self\<lparr>state := s4\<rparr>)"

text \<open>
  \<open>BaseGameAgent.get_cooperation_rate\<close>. The test \<open>if agent_id:\<close> is Python truthiness:
  both \<open>None\<close> and the empty string select the overall rate.
\<close>

definition get_cooperation_rate :: "BaseGameAgent \<Rightarrow> string option \<Rightarrow> error + real" where
  "get_cooperation_rate self agent_id =
     (if cooperation_history (state self) = [] then Inr 0.5
      else
        let agent_actions =
              (if agent_id \<noteq> None \<and> agent_id \<noteq> Some []
               then [act. (aid, act) \<leftarrow> cooperation_history (state self), Some aid = agent_id]
               else [act. (_, act) \<leftarrow> cooperation_history (state self)])
        in if agent_actions = [] then Inr 0.5
           else
             let cooperative_actions =
                   sum_list [1::int. a \<leftarrow> agent_actions, a \<in> set [COOPERATE, SHARE_KNOWLEDGE]]
             in py_truediv (of_int cooperative_actions) (of_nat (length agent_actions)))"

text \<open>\<open>BaseGameAgent.share_knowledge\<close>: append each item that is not yet in the base.\<close>

definition share_knowledge :: "BaseGameAgent \<Rightarrow> string list \<Rightarrow> BaseGameAgent" where
  "share_knowledge self knowledge =
     self\<lparr>state := (state self)\<lparr>knowledge_base :=
        fold (\<lambda>item kb. if item \<notin> set kb then kb @ [item] else kb)
             knowledge (knowledge_base (state self))\<rparr>\<rparr>"

section \<open>game\_theory/strategies.py\<close>

text \<open>
  \<open>BaseStrategy\<close> and its subclass \<open>Adaptive\<close>. The attributes \<open>name\<close>,
  \<open>payoff_history\<close> and \<open>cooperation_threshold\<close> carry the prefix \<open>strategy_\<close> here,
  since the agent classes use the same attribute names.
\<close>

record BaseStrategy =
  strategy_name :: string
  history :: "AgentAction list"
  opponent_history :: "AgentAction list"
  strategy_payoff_history :: "real list"

record Adaptive = BaseStrategy +
  learning_rate :: real
  exploration_rate :: real
  strategy_cooperation_threshold :: real
  cooperation_probability :: real

text \<open>\<open>Adaptive(learning_rate, exploration_rate, cooperation_threshold)\<close>.\<close>

definition Adaptive_init :: "real \<Rightarrow> real \<Rightarrow> real \<Rightarrow> Adaptive" where
  "Adaptive_init lr er ct =
     \<lparr>strategy_name = ''Adaptive'', history = [], opponent_history = [],
      strategy_payoff_history = [], learning_rate = lr, exploration_rate = er,
      strategy_cooperation_threshold = ct, cooperation_probability = 0.5\<rparr>"

definition update_history ::
  "'a BaseStrategy_scheme \<Rightarrow> AgentAction \<Rightarrow> AgentAction \<Rightarrow> real \<Rightarrow> 'a BaseStrategy_scheme" where
  "update_history self my_action opponent_action my_payoff =
     self\<lparr>history := history self @ [my_action],
          opponent_history := opponent_history self @ [opponent_action],
          strategy_payoff_history := strategy_payoff_history self @ [my_payoff]\<rparr>"

text \<open>\<open>random.choice(xs)\<close> on a non-empty list, with the drawn index an input.\<close>

definition random_choice :: "'a list \<Rightarrow> nat \<Rightarrow> 'a" where
  "random_choice xs n = xs ! (n mod length xs)"

text \<open>
  \<open>Adaptive.decide\<close>. The two values of \<open>random.random()\<close> (\<open>r1\<close>, \<open>r2\<close>) and the index
  drawn by \<open>random.choice\<close> are inputs. Both slices are taken of non-empty lists, so the two
  divisions have a positive divisor. The result is the action and the updated strategy.
\<close>

definition Adaptive_decide ::
  "Adaptive \<Rightarrow> int \<Rightarrow> AgentAction option \<Rightarrow> real \<Rightarrow> nat \<Rightarrow> real \<Rightarrow> AgentAction \<times> Adaptive" where
  "Adaptive_decide self round_number opponent_last_action r1 pick r2 =
     (if round_number = 0 then (COOPERATE, self)
      else
        let p =
          (if length (strategy_payoff_history self) > 0
           then
             let recent_payoffs = py_last_n 5 (strategy_payoff_history self);
                 avg_payoff = sum_list recent_payoffs / of_nat (length recent_payoffs)
             in if avg_payoff > 3
                then cooperation_probability self + learning_rate self * 0.1
                else if avg_payoff < 2
                then
                  (if length (opponent_history self) > 0
                   then
                     let recent_opponent_actions = py_last_n 5 (opponent_history self);
                         opponent_cooperation_rate =
                           of_int (sum_list [1::int. a \<leftarrow> recent_opponent_actions,
                                             a \<in> set [COOPERATE, SHARE_KNOWLEDGE]])
                           / of_nat (length recent_opponent_actions);
                         adjustment = (opponent_cooperation_rate - 0.5) * learning_rate self
                     in cooperation_probability self + adjustment
                   else cooperation_probability self)
                else cooperation_probability self
           else cooperation_probability self);
            self' = self\<lparr>cooperation_probability := max 0 (min 1 p)\<rparr>
        in if r1 < exploration_rate self'
           then (random_choice [COOPERATE, DEFECT] pick, self')
           else if r2 < cooperation_probability self'
           then (COOPERATE, self')
           else (DEFECT, self'))"

text \<open>
  The update of \<open>cooperation_probability\<close> as claim C3 words it, for comparison with
  \<open>Adaptive_decide\<close>: raised by \<open>learning_rate * 0.1\<close> when the average of the last five own
  payoffs exceeds 3.0, and otherwise moved by the opponent's cooperation rate over the last
  five opponent actions, scaled by \<open>learning_rate\<close>; clamped to \<open>[0, 1]\<close>.
\<close>

definition claimed_cooperation_probability :: "Adaptive \<Rightarrow> real" where
  "claimed_cooperation_probability self =
     (let recent_payoffs = py_last_n 5 (strategy_payoff_history self);
          avg_payoff = sum_list recent_payoffs / of_nat (length recent_payoffs);
          recent_opponent_actions = py_last_n 5 (opponent_history self);
          opponent_cooperation_rate =
            of_nat (length (filter (\<lambda>a. a = COOPERATE \<or> a = SHARE_KNOWLEDGE)
                                  recent_opponent_actions))
            / of_nat (length recent_opponent_actions)
      in max 0 (min 1
           (if avg_payoff > 3
            then cooperation_probability self + learning_rate self * 0.1
            else cooperation_probability self
                 + (opponent_cooperation_rate - 0.5) * learning_rate self)))"

section \<open>Dictionaries, loops that may raise, and \<open>max\<close>\<close>

text \<open>A dict literal or comprehension: the pairs are stored in order, a later key overwrites.\<close>

definition dict_of :: "('k \<times> 'v) list \<Rightarrow> ('k \<times> 'v) list" where
  "dict_of kvs = fold (\<lambda>(k, v) d. AList.update k v d) kvs []"

text \<open>\<open>d[k]\<close> raises \<open>KeyError\<close> on a missing key.\<close>

definition getitem :: "(string \<times> 'v) list \<Rightarrow> string \<Rightarrow> error + 'v" where
  "getitem d k = (case map_of d k of None \<Rightarrow> Inl (KeyError k) | Some v \<Rightarrow> Inr v)"

text \<open>A \<open>for\<close> loop whose body may raise: the first exception ends the loop.\<close>

fun mapE :: "('a \<Rightarrow> error + 'b) \<Rightarrow> 'a list \<Rightarrow> error + 'b list" where
  "mapE f [] = Inr []"
| "mapE f (x # xs) =
     (case f x of
        Inl e \<Rightarrow> Inl e
      | Inr y \<Rightarrow> (case mapE f xs of Inl e \<Rightarrow> Inl e | Inr ys \<Rightarrow> Inr (y # ys)))"

fun foldE :: "('a \<Rightarrow> 's \<Rightarrow> error + 's) \<Rightarrow> 'a list \<Rightarrow> 's \<Rightarrow> error + 's" where
  "foldE f [] s = Inr s"
| "foldE f (x # xs) s = (case f x s of Inl e \<Rightarrow> Inl e | Inr s' \<Rightarrow> foldE f xs s')"

text \<open>
  \<open>max(keys, key=f)\<close>: \<open>ValueError\<close> on an empty sequence; otherwise the first element whose
  key is maximal (a later element replaces the candidate only when its key is strictly
  greater).
\<close>

fun py_max :: "('a \<Rightarrow> real) \<Rightarrow> 'a list \<Rightarrow> error + 'a" where
  "py_max f [] = Inl (ValueError ''max() arg is an empty sequence'')"
| "py_max f (x # xs) = Inr (fold (\<lambda>y best. if f y > f best then y else best) xs x)"

text \<open>\<open>xs or []\<close> for an optional list.\<close>

definition or_empty :: "'a list option \<Rightarrow> 'a list" where
  "or_empty xs = (case xs of None \<Rightarrow> [] | Some ys \<Rightarrow> ys)"

text \<open>\<open>str(n)\<close> for an integer, used by the f-string that names a seeded knowledge item.\<close>

function str_nat :: "nat \<Rightarrow> string" where
  "str_nat n =
     (if n < 10 then [''0123456789'' ! n]
      else str_nat (n div 10) @ [''0123456789'' ! (n mod 10)])"
  by pat_completeness auto
termination
  by (relation "measure id") auto

declare str_nat.simps [simp del]

definition str_int :: "int \<Rightarrow> string" where
  "str_int i = (if i < 0 then ''-'' @ str_nat (nat (- i)) else str_nat (nat i))"

section \<open>game\_theory/games.py\<close>

datatype GameType = PRISONERS_DILEMMA | PUBLIC_GOODS | KNOWLEDGE_SHARING | COORDINATION

text \<open>
  \<open>GameResult.additional_metrics\<close>, one constructor per game. For the Prisoner's Dilemma it
  is \<open>analyze_game_outcomes(game_history, name1, name2)\<close>, a report computed from its three
  arguments without raising (the history is non-empty or the report is an error entry); the
  arguments stand for it. For the Public Goods Game: total welfare, average contribution rate
  and the contribution history. For the Knowledge Sharing Game: total number of items shared,
  final knowledge counts and the average sharing rate.
\<close>

datatype Metrics =
  PrisonersDilemmaMetrics "(AgentAction \<times> AgentAction) list" string string
  | PublicGoodsMetrics real real "(string \<times> real) list list"
  | KnowledgeSharingMetrics int "(string \<times> nat) list" real

text \<open>
  The attribute \<open>game_type\<close> of a \<open>GameResult\<close> is \<open>result_game_type\<close> here, the attribute
  \<open>name\<close> of a game is \<open>game_name\<close>.
\<close>

record GameResult =
  result_game_type :: GameType
  participants :: "string list"
  rounds :: int
  actions_history :: "(string \<times> AgentAction) list"
  payoffs :: "(string \<times> real) list"
  cooperation_rates :: "(string \<times> real) list"
  winner :: "string option"
  additional_metrics :: Metrics

record BaseGame =
  game_name :: string
  game_type :: GameType
  round_number :: int
  results_history :: "GameResult list"

text \<open>\<open>BaseGame.reset\<close>, inherited unchanged by the three games.\<close>

definition reset :: "'a BaseGame_scheme \<Rightarrow> 'a BaseGame_scheme" where
  "reset self = self\<lparr>round_number := 0, results_history := []\<rparr>"

text \<open>The decision that replaces one that could not be obtained.\<close>

definition error_fallback :: "AgentAction \<Rightarrow> GameDecision" where
  "error_fallback a =
     \<lparr>action = a, reasoning = ''Error fallback'', confidence = 0, knowledge_to_share = None\<rparr>"

text \<open>
  The loop \<open>for _ in range(num_rounds): round_results.append(await self.play_round(...))\<close>
  of the three \<open>play_full_game\<close> methods: \<open>k\<close> rounds remain, \<open>i\<close> rounds are played; the
  step function gets \<open>i\<close> to select the decisions made in that round.
\<close>

fun play_rounds ::
  "('g \<Rightarrow> BaseGameAgent list \<Rightarrow> nat \<Rightarrow> error + ('g \<times> BaseGameAgent list \<times> 'r)) \<Rightarrow>
   nat \<Rightarrow> nat \<Rightarrow> 'g \<Rightarrow> BaseGameAgent list \<Rightarrow> error + ('g \<times> BaseGameAgent list \<times> 'r list)" where
  "play_rounds step 0 i self agents = Inr (self, agents, [])"
| "play_rounds step (Suc k) i self agents =
     (case step self agents i of
        Inl e \<Rightarrow> Inl e
      | Inr (self', agents', round_result) \<Rightarrow>
          (case play_rounds step k (Suc i) self' agents' of
             Inl e \<Rightarrow> Inl e
           | Inr (self'', agents'', round_results) \<Rightarrow>
               Inr (self'', agents'', round_result # round_results)))"

text \<open>
  \<open>for agent_name, payoff in round_result["payoffs"].items():
  total_payoffs[agent_name] += payoff\<close>.
\<close>

definition add_payoffs ::
  "(string \<times> real) list \<Rightarrow> (string \<times> real) list \<Rightarrow> error + (string \<times> real) list" where
  "add_payoffs round_payoffs total_payoffs =
     foldE (\<lambda>(agent_name, payoff) tp.
              case getitem tp agent_name of
                Inl e \<Rightarrow> Inl e
              | Inr old \<Rightarrow> Inr (AList.update agent_name (old + payoff) tp))
           round_payoffs total_payoffs"

subsection \<open>PrisonersDilemma\<close>

text \<open>
  The agents in the list handed to a game are taken to be different objects, so that a game
  returns the list of updated agents. An agent's \<open>make_decision\<close> is an input: for the agent
  at position \<open>i\<close> of the list, \<open>decide i\<close> is \<open>Some\<close> decision, or \<open>None\<close> when the call
  raises. Conversation tracking and logging are left out.
\<close>

record PrisonersDilemma = BaseGame +
  reward_matrix :: RewardMatrix
  game_history :: "(AgentAction \<times> AgentAction) list"

definition PrisonersDilemma_init :: "RewardMatrix option \<Rightarrow> PrisonersDilemma" where
  "PrisonersDilemma_init m =
     \<lparr>game_name = ''Prisoner's Dilemma'', game_type = PRISONERS_DILEMMA, round_number = 0,
      results_history = [],
      reward_matrix = (case m of None \<Rightarrow> prisoner_dilemma | Some r \<Rightarrow> r),
      game_history = []\<rparr>"

record PD_round_result =
  pd_round :: int
  pd_actions :: "(string \<times> AgentAction) list"
  pd_decisions :: "(string \<times> GameDecision) list"
  pd_payoffs :: "(string \<times> real) list"
  pd_knowledge_shared :: "(string \<times> string list) list"

text \<open>
  \<open>PrisonersDilemma.play_round\<close>. Both decisions are awaited together: if either call
  raises, both agents get the fallback decision.
\<close>

definition PrisonersDilemma_play_round ::
  "PrisonersDilemma \<Rightarrow> BaseGameAgent list \<Rightarrow> (nat \<Rightarrow> GameDecision option) \<Rightarrow>
   error + (PrisonersDilemma \<times> BaseGameAgent list \<times> PD_round_result)" where
  "PrisonersDilemma_play_round self agents decide =
     (case agents of
        [agent1, agent2] \<Rightarrow>
          let self1 = self\<lparr>round_number := round_number self + 1\<rparr>;
              (decision1, decision2) =
                 (case (decide 0, decide 1) of
                    (Some d1, Some d2) \<Rightarrow> (d1, d2)
                  | _ \<Rightarrow> (error_fallback DEFECT, error_fallback DEFECT));
              action1 = action decision1;
              action2 = action decision2;
              (payoff1, payoff2) = calculate_round_payoffs (reward_matrix self1) action1 action2;
              a1 = update_state agent1 (name agent2) action2 payoff1 action1;
              a2 = update_state agent2 (name agent1) action1 payoff2 action2;
              a2' = (if or_empty (knowledge_to_share decision1) \<noteq> []
                     then share_knowledge a2 (or_empty (knowledge_to_share decision1)) else a2);
              a1' = (if or_empty (knowledge_to_share decision2) \<noteq> []
                     then share_knowledge a1 (or_empty (knowledge_to_share decision2)) else a1);
              self2 = self1\<lparr>game_history := game_history self1 @ [(action1, action2)]\<rparr>;
              round_result =
                \<lparr>pd_round = round_number self2,
                 pd_actions = dict_of [(name agent1, action1), (name agent2, action2)],
                 pd_decisions = dict_of [(name agent1, decision1), (name agent2, decision2)],
                 pd_payoffs = dict_of [(name agent1, payoff1), (name agent2, payoff2)],
                 pd_knowledge_shared =
                   dict_of [(name agent1, or_empty (knowledge_to_share decision1)),
                            (name agent2, or_empty (knowledge_to_share decision2))]\<rparr>
          in Inr (self2, [a1', a2'], round_result)
      | _ \<Rightarrow> Inl (ValueError ''Prisoner's Dilemma requires exactly 2 agents''))"

text \<open>
  \<open>PrisonersDilemma.play_full_game\<close>; \<open>decide r i\<close> is the decision of the agent at position
  \<open>i\<close> in the round with index \<open>r\<close> (counted from 0).
\<close>

definition PrisonersDilemma_play_full_game ::
  "PrisonersDilemma \<Rightarrow> BaseGameAgent list \<Rightarrow> int \<Rightarrow> (nat \<Rightarrow> nat \<Rightarrow> GameDecision option) \<Rightarrow>
   error + (PrisonersDilemma \<times> BaseGameAgent list \<times> GameResult)" where
  "PrisonersDilemma_play_full_game self agents num_rounds decide =
     (case agents of
        [agent1, agent2] \<Rightarrow>
          (case play_rounds (\<lambda>g ags r. PrisonersDilemma_play_round g ags (decide r))
                  (nat num_rounds) 0 (reset self) agents of
             Inl e \<Rightarrow> Inl e
           | Inr (self1, agents1, round_results) \<Rightarrow>
          (case foldE (\<lambda>round_result tp. add_payoffs (pd_payoffs round_result) tp) round_results
                  (dict_of [(name agent1, 0), (name agent2, 0)]) of
             Inl e \<Rightarrow> Inl e
           | Inr total_payoffs \<Rightarrow>
          let actions_hist = concat (map pd_actions round_results) in
          (case foldE (\<lambda>agent rates.
                    case calculate_cooperation_rate
                           [act. (nm, act) \<leftarrow> actions_hist, nm = name agent] of
                      Inl e \<Rightarrow> Inl e
                    | Inr rate \<Rightarrow> Inr (AList.update (name agent) rate rates))
                  agents1 [] of
             Inl e \<Rightarrow> Inl e
           | Inr coop_rates \<Rightarrow>
          (case py_max (\<lambda>k. case map_of total_payoffs k of Some v \<Rightarrow> v | None \<Rightarrow> 0)
                  (map fst total_payoffs) of
             Inl e \<Rightarrow> Inl e
           | Inr best \<Rightarrow>
          (case getitem total_payoffs (name agent1) of
             Inl e \<Rightarrow> Inl e
           | Inr total1 \<Rightarrow>
          (case getitem total_payoffs (name agent2) of
             Inl e \<Rightarrow> Inl e
           | Inr total2 \<Rightarrow>
          let the_winner = (if total1 = total2 then None else Some best);
              result =
                \<lparr>result_game_type = game_type self1,
                 participants = map name agents1,
                 rounds = num_rounds,
                 actions_history = actions_hist,
                 payoffs = total_payoffs,
                 cooperation_rates = coop_rates,
                 winner = the_winner,
                 additional_metrics =
                   PrisonersDilemmaMetrics (game_history self1) (name agent1) (name agent2)\<rparr>
          in Inr (self1\<lparr>results_history := results_history self1 @ [result]\<rparr>,
                  agents1, result)))))))
      | _ \<Rightarrow> Inl (ValueError ''Prisoner's Dilemma requires exactly 2 agents''))"

subsection \<open>PublicGoodsGame\<close>

record PublicGoodsGame = BaseGame +
  multiplier :: real
  endowment :: real
  contribution_history :: "(string \<times> real) list list"

definition PublicGoodsGame_init :: "real \<Rightarrow> real \<Rightarrow> PublicGoodsGame" where
  "PublicGoodsGame_init m e =
     \<lparr>game_name = ''Public Goods Game'', game_type = PUBLIC_GOODS, round_number = 0,
      results_history = [], multiplier = m, endowment = e, contribution_history = []\<rparr>"

record PG_round_result =
  pg_round :: int
  pg_contributions :: "(string \<times> real) list"
  pg_total_contributions :: real
  pg_public_pool :: real
  pg_payoffs :: "(string \<times> real) list"
  pg_decisions :: "(string \<times> GameDecision) list"

text \<open>
  \<open>PublicGoodsGame.play_round\<close>. The division by \<open>len(agents)\<close> raises for an empty list;
  \<open>max(1, len(agents) - 1)\<close> is at least one.
\<close>

definition PublicGoodsGame_play_round ::
  "PublicGoodsGame \<Rightarrow> BaseGameAgent list \<Rightarrow> (nat \<Rightarrow> GameDecision option) \<Rightarrow>
   error + (PublicGoodsGame \<times> BaseGameAgent list \<times> PG_round_result)" where
  "PublicGoodsGame_play_round self agents decide =
     (let self1 = self\<lparr>round_number := round_number self + 1\<rparr>;
          contributions =
            dict_of [(name agent,
                      case decide i of
                        Some decision \<Rightarrow>
                          if action decision = COOPERATE
                          then endowment self1 * 0.8 else endowment self1 * 0.2
                      | None \<Rightarrow> 0). (i, agent) \<leftarrow> enumerate 0 agents];
          decisions =
            dict_of [(name agent,
                      case decide i of
                        Some decision \<Rightarrow> decision
                      | None \<Rightarrow> error_fallback DEFECT). (i, agent) \<leftarrow> enumerate 0 agents];
          total_contributions = sum_list (map snd contributions);
          public_pool = total_contributions * multiplier self1
      in case py_truediv public_pool (of_nat (length agents)) of
           Inl e \<Rightarrow> Inl e
         | Inr equal_share \<Rightarrow>
      let round_payoffs =
            dict_of [(agent_name, (endowment self1 - contribution) + equal_share).
                     (agent_name, contribution) \<leftarrow> contributions]
      in case mapE (\<lambda>agent.
                let other_agents_cooperation =
                      sum_list [1::int. (nm, contrib) \<leftarrow> contributions,
                                nm \<noteq> name agent \<and> contrib > endowment self1 * 0.5];
                    avg_cooperation =
                      (of_int other_agents_cooperation :: real)
                      / of_nat (max 1 (length agents - 1))
                in case getitem round_payoffs (name agent) of
                     Inl e \<Rightarrow> Inl e
                   | Inr payoff \<Rightarrow>
                       (case getitem decisions (name agent) of
                          Inl e \<Rightarrow> Inl e
                        | Inr decision \<Rightarrow>
                            Inr (update_state agent ''public''
                                   (if avg_cooperation > 0.5 then COOPERATE else DEFECT)
                                   payoff (action decision))))
              agents of
           Inl e \<Rightarrow> Inl e
         | Inr agents1 \<Rightarrow>
      let self2 = self1\<lparr>contribution_history := contribution_history self1 @ [contributions]\<rparr>;
          round_result =
            \<lparr>pg_round = round_number self2,
             pg_contributions = contributions,
             pg_total_contributions = total_contributions,
             pg_public_pool = public_pool,
             pg_payoffs = round_payoffs,
             pg_decisions = decisions\<rparr>
      in Inr (self2, agents1, round_result))"

text \<open>
  \<open>PublicGoodsGame.play_full_game\<close>. \<open>cooperation_rates[agent.name] /= num_rounds\<close> first
  reads the entry (\<open>KeyError\<close> when no round was played) and then divides.
\<close>

definition PublicGoodsGame_play_full_game ::
  "PublicGoodsGame \<Rightarrow> BaseGameAgent list \<Rightarrow> int \<Rightarrow> (nat \<Rightarrow> nat \<Rightarrow> GameDecision option) \<Rightarrow>
   error + (PublicGoodsGame \<times> BaseGameAgent list \<times> GameResult)" where
  "PublicGoodsGame_play_full_game self agents num_rounds decide =
     (case play_rounds (\<lambda>g ags r. PublicGoodsGame_play_round g ags (decide r))
             (nat num_rounds) 0 (reset self) agents of
        Inl e \<Rightarrow> Inl e
      | Inr (self1, agents1, round_results) \<Rightarrow>
     (case foldE (\<lambda>round_result tp. add_payoffs (pg_payoffs round_result) tp) round_results
             (dict_of [(name agent, 0). agent \<leftarrow> agents1]) of
        Inl e \<Rightarrow> Inl e
      | Inr total_payoffs \<Rightarrow>
     let actions_hist =
           concat (map (\<lambda>round_result.
                          [(agent_name, action decision).
                           (agent_name, decision) \<leftarrow> pg_decisions round_result])
                       round_results)
     in
     (case foldE (\<lambda>agent rates.
               case foldE (\<lambda>round_result rates'.
                         case getitem (pg_contributions round_result) (name agent) of
                           Inl e \<Rightarrow> Inl e
                         | Inr contribution \<Rightarrow>
                             (case py_truediv contribution (endowment self1) of
                                Inl e \<Rightarrow> Inl e
                              | Inr contrib_rate \<Rightarrow>
                                  Inr (AList.update (name agent)
                                         ((case map_of rates' (name agent) of
                                             None \<Rightarrow> 0 | Some v \<Rightarrow> v) + contrib_rate)
                                         rates')))
                      round_results rates of
                 Inl e \<Rightarrow> Inl e
               | Inr rates1 \<Rightarrow>
                   (case getitem rates1 (name agent) of
                      Inl e \<Rightarrow> Inl e
                    | Inr v \<Rightarrow>
                        (case py_truediv v (of_int num_rounds) of
                           Inl e \<Rightarrow> Inl e
                         | Inr v' \<Rightarrow> Inr (AList.update (name agent) v' rates1))))
             agents1 [] of
        Inl e \<Rightarrow> Inl e
      | Inr coop_rates \<Rightarrow>
     (case py_max (\<lambda>k. case map_of total_payoffs k of Some v \<Rightarrow> v | None \<Rightarrow> 0)
             (map fst total_payoffs) of
        Inl e \<Rightarrow> Inl e
      | Inr best \<Rightarrow>
     (case py_truediv (sum_list (map snd coop_rates)) (of_nat (length coop_rates)) of
        Inl e \<Rightarrow> Inl e
      | Inr average_contribution_rate \<Rightarrow>
     let result =
           \<lparr>result_game_type = game_type self1,
            participants = map name agents1,
            rounds = num_rounds,
            actions_history = actions_hist,
            payoffs = total_payoffs,
            cooperation_rates = coop_rates,
            winner = Some best,
            additional_metrics =
              PublicGoodsMetrics (sum_list (map snd total_payoffs)) average_contribution_rate
                (contribution_history self1)\<rparr>
     in Inr (self1\<lparr>results_history := results_history self1 @ [result]\<rparr>,
             agents1, result))))))"

subsection \<open>KnowledgeSharingGame\<close>

record KnowledgeSharingGame = BaseGame +
  knowledge_value :: real
  sharing_cost :: real
  knowledge_pool :: "string list"

definition KnowledgeSharingGame_init :: "real \<Rightarrow> real \<Rightarrow> KnowledgeSharingGame" where
  "KnowledgeSharingGame_init v c =
     \<lparr>game_name = ''Knowledge Sharing Game'', game_type = KNOWLEDGE_SHARING, round_number = 0,
      results_history = [], knowledge_value = v, sharing_cost = c,
      knowledge_pool =
        [''Advanced algorithm optimization'', ''Market trend analysis'',
         ''Resource allocation strategy'', ''Communication protocol'',
         ''Problem-solving framework'', ''Collaboration technique'',
         ''Decision-making model'', ''Trust evaluation method'']\<rparr>"

record KS_round_result =
  ks_round :: int
  ks_decisions :: "(string \<times> GameDecision) list"
  ks_knowledge_shared :: "(string \<times> string list) list"
  ks_knowledge_received :: "(string \<times> string list) list"
  ks_payoffs :: "(string \<times> real) list"

text \<open>
  \<open>KnowledgeSharingGame.play_round\<close>, its five loops in order: seeding of small knowledge
  bases (\<open>pick i\<close> is the index \<open>random.choice\<close> draws for the agent at position \<open>i\<close>),
  decisions, payoffs and received knowledge, transfer, state updates.
\<close>

definition KnowledgeSharingGame_play_round ::
  "KnowledgeSharingGame \<Rightarrow> BaseGameAgent list \<Rightarrow> (nat \<Rightarrow> nat) \<Rightarrow> (nat \<Rightarrow> GameDecision option) \<Rightarrow>
   error + (KnowledgeSharingGame \<times> BaseGameAgent list \<times> KS_round_result)" where
  "KnowledgeSharingGame_play_round self agents pick decide =
     (let self1 = self\<lparr>round_number := round_number self + 1\<rparr>
      in case mapE (\<lambda>(i, agent).
                if length (knowledge_base (state agent)) < 3
                then
                  (if knowledge_pool self1 = [] then Inl IndexError
                   else Inr (share_knowledge agent
                          [''Knowledge_'' @ str_int (round_number self1) @ ''_'' @ str_nat i
                           @ '': '' @ random_choice (knowledge_pool self1) (pick i)]))
                else Inr agent)
              (enumerate 0 agents) of
           Inl e \<Rightarrow> Inl e
         | Inr agents1 \<Rightarrow>
      let decisions =
            dict_of [(name agent,
                      case decide i of
                        Some decision \<Rightarrow> decision
                      | None \<Rightarrow> error_fallback WITHHOLD_KNOWLEDGE).
                     (i, agent) \<leftarrow> enumerate 0 agents1];
          knowledge_shared =
            dict_of [(name agent,
                      case decide i of
                        Some decision \<Rightarrow> or_empty (knowledge_to_share decision)
                      | None \<Rightarrow> []).
                     (i, agent) \<leftarrow> enumerate 0 agents1]
      in case foldE (\<lambda>agent (round_payoffs, knowledge_received).
                case getitem knowledge_shared (name agent) of
                  Inl e \<Rightarrow> Inl e
                | Inr own_shared \<Rightarrow>
                case foldE (\<lambda>other_agent (payoff, received).
                          if name other_agent \<noteq> name agent
                          then
                            (case getitem knowledge_shared (name other_agent) of
                               Inl e \<Rightarrow> Inl e
                             | Inr shared_knowledge \<Rightarrow>
                                 if shared_knowledge \<noteq> []
                                 then
                                   (if get_trust_score other_agent (name agent) > 0.3
                                    then
                                      (case getitem received (name agent) of
                                         Inl e \<Rightarrow> Inl e
                                       | Inr got \<Rightarrow>
                                           Inr (payoff + knowledge_value self1
                                                         * of_nat (length shared_knowledge),
                                                AList.update (name agent)
                                                  (got @ shared_knowledge) received))
                                    else Inr (payoff, received))
                                 else Inr (payoff, received))
                          else Inr (payoff, received))
                       agents1
                       (if own_shared \<noteq> []
                        then 0 - sharing_cost self1 * of_nat (length own_shared) else 0,
                        knowledge_received) of
                  Inl e \<Rightarrow> Inl e
                | Inr (payoff, received) \<Rightarrow>
                    Inr (AList.update (name agent) payoff round_payoffs, received))
              agents1
              ([], dict_of [(name agent, []). agent \<leftarrow> agents1]) of
           Inl e \<Rightarrow> Inl e
         | Inr (round_payoffs, knowledge_received) \<Rightarrow>
      case mapE (\<lambda>agent.
                case getitem knowledge_received (name agent) of
                  Inl e \<Rightarrow> Inl e
                | Inr got \<Rightarrow> Inr (if got \<noteq> [] then share_knowledge agent got else agent))
              agents1 of
           Inl e \<Rightarrow> Inl e
         | Inr agents2 \<Rightarrow>
      case mapE (\<lambda>agent.
                foldE (\<lambda>other_agent ag.
                         if name other_agent \<noteq> name agent
                         then
                           (case getitem knowledge_shared (name other_agent) of
                              Inl e \<Rightarrow> Inl e
                            | Inr other_knowledge \<Rightarrow>
                            case getitem round_payoffs (name agent) of
                              Inl e \<Rightarrow> Inl e
                            | Inr payoff \<Rightarrow>
                            case getitem decisions (name agent) of
                              Inl e \<Rightarrow> Inl e
                            | Inr decision \<Rightarrow>
                                Inr (update_state ag (name other_agent)
                                       (if length other_knowledge > 0
                                        then SHARE_KNOWLEDGE else WITHHOLD_KNOWLEDGE)
                                       payoff (action decision)))
                         else Inr ag)
                      agents2 agent)
              agents2 of
           Inl e \<Rightarrow> Inl e
         | Inr agents3 \<Rightarrow>
      Inr (self1, agents3,
           \<lparr>ks_round = round_number self1,
            ks_decisions = decisions,
            ks_knowledge_shared = knowledge_shared,
            ks_knowledge_received = knowledge_received,
            ks_payoffs = round_payoffs\<rparr>))"

text \<open>\<open>KnowledgeSharingGame.play_full_game\<close>.\<close>

definition KnowledgeSharingGame_play_full_game ::
  "KnowledgeSharingGame \<Rightarrow> BaseGameAgent list \<Rightarrow> int \<Rightarrow> (nat \<Rightarrow> nat \<Rightarrow> nat) \<Rightarrow>
   (nat \<Rightarrow> nat \<Rightarrow> GameDecision option) \<Rightarrow>
   error + (KnowledgeSharingGame \<times> BaseGameAgent list \<times> GameResult)" where
  "KnowledgeSharingGame_play_full_game self agents num_rounds pick decide =
     (case play_rounds (\<lambda>g ags r. KnowledgeSharingGame_play_round g ags (pick r) (decide r))
             (nat num_rounds) 0 (reset self) agents of
        Inl e \<Rightarrow> Inl e
      | Inr (self1, agents1, round_results) \<Rightarrow>
     (case foldE (\<lambda>round_result tp. add_payoffs (ks_payoffs round_result) tp) round_results
             (dict_of [(name agent, 0). agent \<leftarrow> agents1]) of
        Inl e \<Rightarrow> Inl e
      | Inr total_payoffs \<Rightarrow>
     let actions_hist =
           concat (map (\<lambda>round_result.
                          [(agent_name, action decision).
                           (agent_name, decision) \<leftarrow> ks_decisions round_result])
                       round_results);
         coop_rates =
           fold (\<lambda>agent rates.
                   let (sharing_count, total_rounds) =
                         fold (\<lambda>round_result (sc, tr).
                                 case map_of (ks_knowledge_shared round_result) (name agent) of
                                   None \<Rightarrow> (sc, tr)
                                 | Some shared \<Rightarrow>
                                     (if shared \<noteq> [] then sc + 1 else sc, tr + 1))
                              round_results (0::nat, 0::nat)
                   in AList.update (name agent)
                        (of_nat sharing_count / of_nat (max 1 total_rounds)) rates)
                agents1 []
     in
     (case py_max (\<lambda>k. case map_of total_payoffs k of Some v \<Rightarrow> v | None \<Rightarrow> 0)
             (map fst total_payoffs) of
        Inl e \<Rightarrow> Inl e
      | Inr best \<Rightarrow>
     (case py_truediv (sum_list (map snd coop_rates)) (of_nat (length coop_rates)) of
        Inl e \<Rightarrow> Inl e
      | Inr average_sharing_rate \<Rightarrow>
     let result =
           \<lparr>result_game_type = game_type self1,
            participants = map name agents1,
            rounds = num_rounds,
            actions_history = actions_hist,
            payoffs = total_payoffs,
            cooperation_rates = coop_rates,
            winner = Some best,
            additional_metrics =
              KnowledgeSharingMetrics
                (sum_list (concat (map (\<lambda>round_result.
                                          map (\<lambda>(nm, knowledge). int (length knowledge))
                                              (ks_knowledge_shared round_result))
                                       round_results)))
                (dict_of [(name agent, length (knowledge_base (state agent))).
                          agent \<leftarrow> agents1])
                average_sharing_rate\<rparr>
     in Inr (self1\<lparr>results_history := results_history self1 @ [result]\<rparr>,
             agents1, result)))))"

section \<open>Example values\<close>

definition alice :: BaseGameAgent where
  "alice = \<lparr>name = ''alice'', strategy = ''tit_for_tat'', cooperation_threshold = 0.5,
            trust_threshold = 0.5, state = AgentState_init\<rparr>"

definition alice_met_bob :: BaseGameAgent where
  "alice_met_bob = alice\<lparr>state := AgentState_init\<lparr>cooperation_history := [(''bob'', DEFECT)]\<rparr>\<rparr>"

definition trust_example :: AgentState where
  "trust_example = AgentState_init\<lparr>trust_scores := [(''bob'', 0.95), (''carol'', 0.4)]\<rparr>"

text \<open>The invariant on the trust table: every stored score lies in \<open>[0, 1]\<close>.\<close>

definition trust_in_range :: "AgentState \<Rightarrow> bool" where
  "trust_in_range s = list_all (\<lambda>(peer, v). 0 \<le> v \<and> v \<le> 1) (trust_scores s)"

text \<open>
  An \<open>Adaptive()\<close> strategy with the default parameters after one round with payoff 2.5
  against a cooperating opponent.
\<close>

definition adaptive_example :: Adaptive where
  "adaptive_example = update_history (Adaptive_init 0.1 0.1 0.5) COOPERATE COOPERATE 2.5"

text \<open>The same after one round with payoff 0 against a cooperating opponent.\<close>

definition adaptive_exploited :: Adaptive where
  "adaptive_exploited = update_history (Adaptive_init 0.1 0.1 0.5) COOPERATE COOPERATE 0"

definition bob :: BaseGameAgent where
  "bob = alice\<lparr>name := ''bob''\<rparr>"

definition carol :: BaseGameAgent where
  "carol = alice\<lparr>name := ''carol''\<rparr>"

text \<open>A decision to cooperate that shares no knowledge.\<close>

definition cooperate_decision :: GameDecision where
  "cooperate_decision =
     \<lparr>action = COOPERATE, reasoning = ''cooperate'', confidence = 0.9,
      knowledge_to_share = Some []\<rparr>"

text \<open>The default Prisoner's Dilemma game after one round in which both agents cooperate.\<close>

definition pd_after_round :: PrisonersDilemma where
  "pd_after_round =
     (case PrisonersDilemma_play_round (PrisonersDilemma_init None) [alice, bob]
             (\<lambda>i. Some cooperate_decision) of
        Inr (g, ags, rr) \<Rightarrow> g
      | Inl e \<Rightarrow> PrisonersDilemma_init None)"

section \<open>Properties\<close>

lemma count_filter:
  "sum_list (concat (map (\<lambda>a. if P a then [1::int] else []) xs)) = int (length (filter P xs))"
  by (induction xs) simp_all

subsection \<open>Cooperation rates\<close>

text \<open>
  C8. \<open>PayoffCalculator.calculate_cooperation_rate\<close> returns 0.0 on the empty list and does
  not raise; on a non-empty list it returns the number of cooperative actions (\<open>COOPERATE\<close>
  or \<open>SHARE_KNOWLEDGE\<close>) divided by the length; on \<open>n > 0\<close> copies of \<open>COOPERATE\<close> it
  returns 1.0.
\<close>

theorem calculate_cooperation_rate_spec:
  "calculate_cooperation_rate [] = Inr 0 \<and>
   (actions \<noteq> [] \<longrightarrow> calculate_cooperation_rate actions =
        Inr (real (length (filter (\<lambda>a. a = COOPERATE \<or> a = SHARE_KNOWLEDGE) actions))
             / real (length actions))) \<and>
   (0 < n \<longrightarrow> calculate_cooperation_rate (replicate n COOPERATE) = Inr 1)"
  by (simp add: calculate_cooperation_rate_def py_truediv_def count_filter sum_list_replicate)

theorem calculate_cooperation_rate_spec_witness:
  "calculate_cooperation_rate [] = Inr 0 \<and>
   [COOPERATE, DEFECT, SHARE_KNOWLEDGE, WITHHOLD_KNOWLEDGE] \<noteq> [] \<and>
   calculate_cooperation_rate [COOPERATE, DEFECT, SHARE_KNOWLEDGE, WITHHOLD_KNOWLEDGE] = Inr (1 / 2) \<and>
   (0::nat) < 3 \<and> calculate_cooperation_rate (replicate 3 COOPERATE) = Inr 1"
  using calculate_cooperation_rate_spec [of "[COOPERATE, DEFECT, SHARE_KNOWLEDGE, WITHHOLD_KNOWLEDGE]" 3]
  by simp

lemma no_matching_interaction:
  "p \<notin> fst ` set h \<Longrightarrow> [act. (aid, act) \<leftarrow> h, Some aid = Some p] = []"
  by (induction h) auto

text \<open>
  C9. \<open>BaseGameAgent.get_cooperation_rate\<close> returns 0.5 when the agent's cooperation history
  is empty (whatever peer is asked for), and when a peer id is given (a non-empty string, as
  the test \<open>if agent_id:\<close> requires) that no recorded interaction matches; in both cases the
  value differs from the 0.0 of \<open>calculate_cooperation_rate\<close> on the empty list.
\<close>

theorem get_cooperation_rate_empty_cases:
  "(cooperation_history (state self) = [] \<longrightarrow>
      get_cooperation_rate self agent_id = Inr 0.5 \<and>
      get_cooperation_rate self agent_id \<noteq> calculate_cooperation_rate []) \<and>
   (cooperation_history (state self) \<noteq> [] \<and> p \<noteq> [] \<and>
    p \<notin> fst ` set (cooperation_history (state self)) \<longrightarrow>
      get_cooperation_rate self (Some p) = Inr 0.5 \<and>
      get_cooperation_rate self (Some p) \<noteq> calculate_cooperation_rate [])"
  using no_matching_interaction [of p "cooperation_history (state self)"]
  by (auto simp: get_cooperation_rate_def calculate_cooperation_rate_def)

theorem get_cooperation_rate_empty_cases_witness:
  "cooperation_history (state alice) = [] \<and>
   get_cooperation_rate alice None = Inr 0.5 \<and>
   get_cooperation_rate alice (Some ''bob'') = Inr 0.5 \<and>
   cooperation_history (state alice_met_bob) \<noteq> [] \<and> ''carol'' \<noteq> [] \<and>
   ''carol'' \<notin> fst ` set (cooperation_history (state alice_met_bob)) \<and>
   get_cooperation_rate alice_met_bob (Some ''carol'') = Inr 0.5 \<and>
   get_cooperation_rate alice_met_bob (Some ''bob'') = Inr 0 \<and>
   calculate_cooperation_rate [] = Inr 0"
proof -
  have e: "cooperation_history (state alice) = []"
    by (simp add: alice_def AgentState_init_def)
  have h: "cooperation_history (state alice_met_bob) = [(''bob'', DEFECT)]"
    by (simp add: alice_met_bob_def alice_def AgentState_init_def)
  have n: "cooperation_history (state alice_met_bob) \<noteq> [] \<and> ''carol'' \<noteq> [] \<and>
      ''carol'' \<notin> fst ` set (cooperation_history (state alice_met_bob))"
    by (simp add: h)
  have 1: "get_cooperation_rate alice None = Inr 0.5"
    using get_cooperation_rate_empty_cases [of alice None] e by blast
  have 2: "get_cooperation_rate alice (Some ''bob'') = Inr 0.5"
    using get_cooperation_rate_empty_cases [of alice "Some ''bob''"] e by blast
  have 3: "get_cooperation_rate alice_met_bob (Some ''carol'') = Inr 0.5"
    using get_cooperation_rate_empty_cases [of alice_met_bob _ "''carol''"] n by blast
  have 4: "get_cooperation_rate alice_met_bob (Some ''bob'') = Inr 0"
    by (simp add: get_cooperation_rate_def h py_truediv_def)
  have 5: "calculate_cooperation_rate [] = Inr 0"
    by (simp add: calculate_cooperation_rate_def)
  from e n 1 2 3 4 5 show ?thesis by blast
qed

subsection \<open>Trust scores\<close>

lemma map_of_scale_other:
  "q \<noteq> p \<Longrightarrow>
   map_of (map (\<lambda>(agent, v). if agent \<noteq> p then (agent, f v) else (agent, v)) ts) q =
     map_option f (map_of ts q)"
proof (induction ts)
  case Nil
  show ?case by simp
next
  case (Cons x ts)
  obtain k v where x: "x = (k, v)" by (cases x)
  show ?case using Cons by (simp add: x)
qed

lemma map_of_scale_self:
  "map_of (map (\<lambda>(agent, v). if agent \<noteq> p then (agent, f v) else (agent, v)) ts) p =
     map_of ts p"
proof (induction ts)
  case Nil
  show ?case by simp
next
  case (Cons x ts)
  obtain k v where x: "x = (k, v)" by (cases x)
  show ?case using Cons by (simp add: x)
qed

lemma map_of_default_present:
  "map_of (if p \<notin> fst ` set ts then AList.update p d ts else ts) p =
     Some (case map_of ts p of None \<Rightarrow> d | Some v \<Rightarrow> v)"
proof (cases "map_of ts p")
  case None
  then have "p \<notin> fst ` set ts" by (simp add: map_of_eq_None_iff)
  with None show ?thesis by (simp add: update_conv')
next
  case (Some v)
  then have "map_of ts p \<noteq> None" by simp
  then have "p \<in> fst ` set ts" by (simp add: map_of_eq_None_iff)
  with Some show ?thesis by simp
qed

text \<open>
  C5. \<open>update_trust(p, cooperated, decay_rate)\<close> sets the score of \<open>p\<close> to
  \<open>min(1.0, old + 0.1)\<close> when \<open>cooperated\<close> and to \<open>max(0.0, old - 0.2)\<close> otherwise, where
  \<open>old\<close> is the stored score or 0.5 when \<open>p\<close> has no entry; every other recorded peer's
  score is multiplied by \<open>1 - decay_rate\<close> (and no other peer gains an entry); the other
  fields of the \<open>AgentState\<close> are untouched.
\<close>

theorem update_trust_spec:
  "map_of (trust_scores (update_trust s p cooperated decay_rate)) p =
     Some (let old = (case map_of (trust_scores s) p of None \<Rightarrow> 0.5 | Some v \<Rightarrow> v)
           in if cooperated then min 1 (old + 0.1) else max 0 (old - 0.2)) \<and>
   (\<forall>q. q \<noteq> p \<longrightarrow>
      map_of (trust_scores (update_trust s p cooperated decay_rate)) q =
        map_option (\<lambda>v. v * (1 - decay_rate)) (map_of (trust_scores s) q)) \<and>
   knowledge_base (update_trust s p cooperated decay_rate) = knowledge_base s \<and>
   cooperation_history (update_trust s p cooperated decay_rate) = cooperation_history s \<and>
   payoff_history (update_trust s p cooperated decay_rate) = payoff_history s \<and>
   reputation (update_trust s p cooperated decay_rate) = reputation s"
proof -
  define ts0 where "ts0 = (if p \<notin> fst ` set (trust_scores s)
              then AList.update p 0.5 (trust_scores s) else trust_scores s)"
  define old where "old = (case map_of (trust_scores s) p of None \<Rightarrow> 0.5 | Some v \<Rightarrow> v)"
  define s' where "s' = update_trust s p cooperated decay_rate"
  have own: "map_of ts0 p = Some old"
    unfolding ts0_def old_def by (rule map_of_default_present)
  have others: "map_of ts0 q = map_of (trust_scores s) q" if "q \<noteq> p" for q
    using that by (simp add: ts0_def update_conv')
  have ts: "trust_scores s' =
      map (\<lambda>(agent, v). if agent \<noteq> p then (agent, v * (1 - decay_rate)) else (agent, v))
        (AList.map_entry p (\<lambda>v. if cooperated then min 1 (v + 0.1) else max 0 (v - 0.2)) ts0)"
    by (simp add: s'_def update_trust_def Let_def ts0_def)
  have frame: "knowledge_base s' = knowledge_base s \<and>
      cooperation_history s' = cooperation_history s \<and>
      payoff_history s' = payoff_history s \<and> reputation s' = reputation s"
    by (simp add: s'_def update_trust_def Let_def)
  have own': "map_of (trust_scores s') p =
      Some (if cooperated then min 1 (old + 0.1) else max 0 (old - 0.2))"
    by (simp add: ts map_of_scale_self map_of_map_entry own)
  have other': "map_of (trust_scores s') q =
      map_option (\<lambda>v. v * (1 - decay_rate)) (map_of (trust_scores s) q)" if "q \<noteq> p" for q
    using that by (simp add: ts map_of_scale_other map_of_map_entry others)
  have own_let: "map_of (trust_scores s') p =
      Some (let old = (case map_of (trust_scores s) p of None \<Rightarrow> 0.5 | Some v \<Rightarrow> v)
            in if cooperated then min 1 (old + 0.1) else max 0 (old - 0.2))"
    unfolding own' old_def Let_def by (rule refl)
  show ?thesis
    unfolding s'_def [symmetric]
    by (intro conjI allI impI own_let other') (simp_all add: frame)
qed

theorem update_trust_spec_witness:
  "''carol'' \<noteq> ''bob'' \<and>
   map_of (trust_scores (update_trust trust_example ''bob'' True 0.1)) ''bob'' = Some 1 \<and>
   map_of (trust_scores (update_trust trust_example ''bob'' True 0.1)) ''carol'' = Some 0.36"
proof -
  note spec = update_trust_spec [of trust_example "''bob''" True "0.1"]
  have ne: "''carol'' \<noteq> ''bob''" by simp
  have bob: "map_of (trust_scores trust_example) ''bob'' = Some 0.95"
    by (simp add: trust_example_def AgentState_init_def)
  have carol: "map_of (trust_scores trust_example) ''carol'' = Some 0.4"
    by (simp add: trust_example_def AgentState_init_def)
  have own: "map_of (trust_scores (update_trust trust_example ''bob'' True 0.1)) ''bob'' = Some 1"
    using spec [THEN conjunct1] by (simp add: bob)
  have other: "map_of (trust_scores (update_trust trust_example ''bob'' True 0.1)) ''carol'' = Some 0.36"
    using spec [THEN conjunct2, THEN conjunct1, rule_format, OF ne] by (simp add: carol)
  show ?thesis
    by (intro conjI ne own other)
qed

lemma list_all_update:
  "list_all P al \<Longrightarrow> P (k, v) \<Longrightarrow> list_all P (AList.update k v al)"
  by (induction al) simp_all

lemma list_all_map_entry:
  "list_all P al \<Longrightarrow> (\<And>v. P (k, v) \<Longrightarrow> P (k, f v)) \<Longrightarrow> list_all P (AList.map_entry k f al)"
proof (induction al)
  case Nil
  show ?case by simp
next
  case (Cons x al)
  obtain k' v' where x: "x = (k', v')" by (cases x)
  show ?case using Cons by (auto simp: x)
qed

lemma list_all_scale:
  "list_all P ts \<Longrightarrow> (\<And>k v. P (k, v) \<Longrightarrow> P (k, f v)) \<Longrightarrow>
   list_all P (map (\<lambda>(agent, v). if agent \<noteq> p then (agent, f v) else (agent, v)) ts)"
proof (induction ts)
  case Nil
  show ?case by simp
next
  case (Cons x ts)
  obtain k v where x: "x = (k, v)" by (cases x)
  show ?case using Cons by (auto simp: x)
qed

lemma update_trust_shape:
  "trust_scores (update_trust s p c d) =
     map (\<lambda>(agent, v). if agent \<noteq> p then (agent, v * (1 - d)) else (agent, v))
       (AList.map_entry p (\<lambda>v. if c then min 1 (v + 0.1) else max 0 (v - 0.2))
          (if p \<notin> fst ` set (trust_scores s)
           then AList.update p 0.5 (trust_scores s) else trust_scores s))"
  by (simp add: update_trust_def Let_def)

lemma update_trust_in_range:
  assumes "trust_in_range s" and "0 \<le> d" and "d \<le> 1"
  shows "trust_in_range (update_trust s p c d)"
proof -
  let ?P = "\<lambda>(peer :: string, v :: real). 0 \<le> v \<and> v \<le> 1"
  define ts0 where "ts0 = (if p \<notin> fst ` set (trust_scores s)
              then AList.update p 0.5 (trust_scores s) else trust_scores s)"
  have a0: "list_all ?P ts0"
    using assms(1) by (simp add: ts0_def trust_in_range_def list_all_update)
  have a1: "list_all ?P
      (AList.map_entry p (\<lambda>v. if c then min 1 (v + 0.1) else max 0 (v - 0.2)) ts0)"
    by (rule list_all_map_entry [OF a0]) simp
  have scale: "0 \<le> v * (1 - d) \<and> v * (1 - d) \<le> 1" if "0 \<le> v" "v \<le> 1" for v :: real
  proof
    show "0 \<le> v * (1 - d)" using that assms by simp
    have "v * (1 - d) \<le> 1 * 1"
      using that assms by (intro mult_mono) simp_all
    then show "v * (1 - d) \<le> 1" by simp
  qed
  have a2: "list_all ?P
     (map (\<lambda>(agent, v). if agent \<noteq> p then (agent, v * (1 - d)) else (agent, v))
       (AList.map_entry p (\<lambda>v. if c then min 1 (v + 0.1) else max 0 (v - 0.2)) ts0))"
    by (rule list_all_scale [OF a1]) (simp add: scale)
  show ?thesis
    unfolding trust_in_range_def update_trust_shape using a2 unfolding ts0_def .
qed

text \<open>
  C6. If all trust scores of an \<open>AgentState\<close> lie in \<open>[0, 1]\<close>, then after any finite
  sequence of \<open>update_trust\<close> calls (any peers, any cooperation flags, the default decay
  rate 0.1) all stored trust scores still lie in \<open>[0, 1]\<close>.
\<close>

theorem trust_scores_stay_in_range:
  "trust_in_range s \<Longrightarrow>
   trust_in_range (fold (\<lambda>(peer, cooperated) st. update_trust st peer cooperated 0.1) calls s)"
proof (induction calls arbitrary: s)
  case Nil
  then show ?case by simp
next
  case (Cons c calls)
  obtain peer cooperated where c: "c = (peer, cooperated)" by (cases c)
  have "trust_in_range (update_trust s peer cooperated 0.1)"
    using Cons.prems by (intro update_trust_in_range) simp_all
  then show ?case using Cons.IH c by simp
qed

theorem trust_scores_stay_in_range_witness:
  "trust_in_range trust_example \<and>
   trust_in_range (fold (\<lambda>(peer, cooperated) st. update_trust st peer cooperated 0.1)
      [(''bob'', True), (''dave'', False), (''carol'', False), (''carol'', False)] trust_example) \<and>
   trust_scores (fold (\<lambda>(peer, cooperated) st. update_trust st peer cooperated 0.1)
      [(''bob'', True), (''dave'', False), (''carol'', False), (''carol'', False)] trust_example)
     = [(''bob'', 0.729), (''carol'', 0), (''dave'', 0.243)]"
proof -
  have r: "trust_in_range trust_example"
    by (simp add: trust_in_range_def trust_example_def AgentState_init_def)
  have 1: "trust_scores (update_trust trust_example ''bob'' True 0.1) = [(''bob'', 1), (''carol'', 0.36)]"
    by (simp add: update_trust_shape trust_example_def AgentState_init_def)
  have 2: "trust_scores (update_trust (update_trust trust_example ''bob'' True 0.1) ''dave'' False 0.1)
      = [(''bob'', 0.9), (''carol'', 0.324), (''dave'', 0.3)]"
    by (simp add: update_trust_shape [of "update_trust trust_example ''bob'' True 0.1"] 1)
  have 3: "trust_scores (update_trust (update_trust (update_trust trust_example ''bob'' True 0.1)
         ''dave'' False 0.1) ''carol'' False 0.1)
      = [(''bob'', 0.81), (''carol'', 0.124), (''dave'', 0.27)]"
    by (simp add: update_trust_shape [of "update_trust (update_trust trust_example ''bob'' True 0.1)
         ''dave'' False 0.1"] 2)
  have 4: "trust_scores (update_trust (update_trust (update_trust (update_trust trust_example ''bob'' True 0.1)
         ''dave'' False 0.1) ''carol'' False 0.1) ''carol'' False 0.1)
      = [(''bob'', 0.729), (''carol'', 0), (''dave'', 0.243)]"
    by (simp add: update_trust_shape [of "update_trust (update_trust (update_trust trust_example ''bob'' True 0.1)
         ''dave'' False 0.1) ''carol'' False 0.1"] 3)
  have v: "trust_scores (fold (\<lambda>(peer, cooperated) st. update_trust st peer cooperated 0.1)
      [(''bob'', True), (''dave'', False), (''carol'', False), (''carol'', False)] trust_example)
     = [(''bob'', 0.729), (''carol'', 0), (''dave'', 0.243)]"
    unfolding 4 [symmetric] by simp
  show ?thesis
    by (intro conjI r v trust_scores_stay_in_range [OF r])
qed

subsection \<open>The adaptive strategy\<close>

lemma Adaptive_decide_state:
  "round_no \<noteq> 0 \<Longrightarrow>
   cooperation_probability (snd (Adaptive_decide self round_no opp r1 pick r2)) =
     max 0 (min 1
      (if length (strategy_payoff_history self) > 0
       then
         if sum_list (py_last_n 5 (strategy_payoff_history self))
              / of_nat (length (py_last_n 5 (strategy_payoff_history self))) > 3
         then cooperation_probability self + learning_rate self * 0.1
         else if sum_list (py_last_n 5 (strategy_payoff_history self))
              / of_nat (length (py_last_n 5 (strategy_payoff_history self))) < 2
         then
           (if length (opponent_history self) > 0
            then cooperation_probability self +
               (of_int (sum_list [1::int. a \<leftarrow> py_last_n 5 (opponent_history self),
                                             a \<in> set [COOPERATE, SHARE_KNOWLEDGE]])
                  / of_nat (length (py_last_n 5 (opponent_history self))) - 0.5)
               * learning_rate self
            else cooperation_probability self)
         else cooperation_probability self
       else cooperation_probability self))"
  unfolding Adaptive_decide_def Let_def by (simp del: set_simps)

text \<open>
  C3, as amended. On a \<open>decide\<close> call with a round number other than 0 (so in every round
  from 1 on) and a non-empty payoff history: when the average of the last five own payoffs
  exceeds 3.0 the cooperation probability is raised by \<open>learning_rate * 0.1\<close>; when that
  average is below 2.0 and an opponent action is recorded, \<open>(r - 0.5) * learning_rate\<close> is
  added, \<open>r\<close> being the opponent's cooperation rate over the last five opponent actions; in
  every other case the probability is left as it is. The result is then clamped to
  \<open>[0, 1]\<close>.
\<close>

theorem Adaptive_decide_probability:
  assumes "round_no \<noteq> 0" and "strategy_payoff_history self \<noteq> []"
  shows "cooperation_probability (snd (Adaptive_decide self round_no opp r1 pick r2)) =
     (let avg_payoff = sum_list (py_last_n 5 (strategy_payoff_history self))
                       / of_nat (length (py_last_n 5 (strategy_payoff_history self)));
          opponent_cooperation_rate =
            of_nat (length (filter (\<lambda>a. a = COOPERATE \<or> a = SHARE_KNOWLEDGE)
                                  (py_last_n 5 (opponent_history self))))
            / of_nat (length (py_last_n 5 (opponent_history self)))
      in max 0 (min 1
           (if avg_payoff > 3
            then cooperation_probability self + learning_rate self * 0.1
            else if avg_payoff < 2 \<and> opponent_history self \<noteq> []
            then cooperation_probability self
                 + (opponent_cooperation_rate - 0.5) * learning_rate self
            else cooperation_probability self))) \<and>
    0 \<le> cooperation_probability (snd (Adaptive_decide self round_no opp r1 pick r2)) \<and>
    cooperation_probability (snd (Adaptive_decide self round_no opp r1 pick r2)) \<le> 1"
proof -
  have cnt: "sum_list [1::int. a \<leftarrow> xs, a \<in> set [COOPERATE, SHARE_KNOWLEDGE]] =
      int (length (filter (\<lambda>a. a = COOPERATE \<or> a = SHARE_KNOWLEDGE) xs))" for xs
    using count_filter [of "\<lambda>a. a = COOPERATE \<or> a = SHARE_KNOWLEDGE" xs] by simp
  show ?thesis
    unfolding Adaptive_decide_state [OF assms(1)] cnt Let_def
    using assms(2) by simp
qed


theorem Adaptive_decide_probability_witness:
  "(1::int) \<noteq> 0 \<and> strategy_payoff_history adaptive_exploited \<noteq> [] \<and>
   cooperation_probability
     (snd (Adaptive_decide adaptive_exploited 1 (Some COOPERATE) 0.5 0 0.7)) = 0.55"
proof -
  have r: "(1::int) \<noteq> 0" by simp
  have h: "strategy_payoff_history adaptive_exploited \<noteq> []"
    by (simp add: adaptive_exploited_def update_history_def Adaptive_init_def)
  have v: "cooperation_probability
     (snd (Adaptive_decide adaptive_exploited 1 (Some COOPERATE) 0.5 0 0.7)) = 0.55"
    unfolding Adaptive_decide_probability [OF r h, THEN conjunct1]
    by (simp add: adaptive_exploited_def update_history_def Adaptive_init_def py_last_n_def)
  show ?thesis by (intro conjI r h v)
qed

text \<open>
  C3, as stated, fails: it has the opponent-rate adjustment made whenever the average payoff
  does not exceed 3.0. With the single payoff 2.5 on record (between the two thresholds) and
  a cooperating opponent, \<open>decide\<close> leaves the probability at 0.5, where the claim gives
  0.55.
\<close>

theorem Adaptive_middling_payoff_counterexample:
  "(1::int) \<ge> 1 \<and> strategy_payoff_history adaptive_example = [2.5] \<and>
   opponent_history adaptive_example = [COOPERATE] \<and>
   cooperation_probability adaptive_example = 0.5 \<and>
   cooperation_probability
     (snd (Adaptive_decide adaptive_example 1 (Some COOPERATE) 0.5 0 0.7)) = 0.5 \<and>
   claimed_cooperation_probability adaptive_example = 0.55 \<and>
   cooperation_probability
     (snd (Adaptive_decide adaptive_example 1 (Some COOPERATE) 0.5 0 0.7))
     \<noteq> claimed_cooperation_probability adaptive_example"
proof -
  have ex: "adaptive_example =
     \<lparr>strategy_name = ''Adaptive'', history = [COOPERATE], opponent_history = [COOPERATE],
      strategy_payoff_history = [2.5], learning_rate = 0.1, exploration_rate = 0.1,
      strategy_cooperation_threshold = 0.5, cooperation_probability = 0.5\<rparr>"
    by (simp add: adaptive_example_def update_history_def Adaptive_init_def)
  have code: "cooperation_probability
     (snd (Adaptive_decide adaptive_example 1 (Some COOPERATE) 0.5 0 0.7)) = 0.5"
    by (simp add: ex Adaptive_decide_def py_last_n_def Let_def)
  have claim: "claimed_cooperation_probability adaptive_example = 0.55"
    by (simp add: ex claimed_cooperation_probability_def py_last_n_def Let_def)
  show ?thesis
    unfolding code claim by (simp add: ex)
qed

subsection \<open>Dictionaries and loops\<close>

lemma update_fresh: "k \<notin> fst ` set al \<Longrightarrow> AList.update k v al = al @ [(k, v)]"
  by (induction al) auto

lemma fold_update_distinct:
  "distinct (map fst (acc @ kvs)) \<Longrightarrow>
   fold (\<lambda>(k, v) d. AList.update k v d) kvs acc = acc @ kvs"
proof (induction kvs arbitrary: acc)
  case Nil
  show ?case by simp
next
  case (Cons kv kvs)
  obtain k v where kv: "kv = (k, v)" by (cases kv)
  have fresh: "k \<notin> fst ` set acc" using Cons.prems by (auto simp: kv)
  have d: "distinct (map fst ((acc @ [(k, v)]) @ kvs))" using Cons.prems by (simp add: kv)
  show ?case using Cons.IH [OF d] by (simp add: kv update_fresh [OF fresh])
qed

lemma dict_of_distinct: "distinct (map fst kvs) \<Longrightarrow> dict_of kvs = kvs"
  unfolding dict_of_def using fold_update_distinct [of "[]" kvs] by simp

lemma mapE_total:
  "(\<And>x. x \<in> set xs \<Longrightarrow> f x = Inr (g x)) \<Longrightarrow> mapE f xs = Inr (map g xs)"
  by (induction xs) simp_all

lemma getitem_Some: "map_of d k = Some v \<Longrightarrow> getitem d k = Inr v"
  by (simp add: getitem_def)

lemma enumerate_map_all:
  "(\<And>i. i < length xs \<Longrightarrow> h i (xs ! i) = g (xs ! i)) \<Longrightarrow>
   map (\<lambda>(i, x). h i x) (enumerate 0 xs) = map g xs"
  by (rule nth_equalityI) (simp_all add: nth_enumerate_eq)

subsection \<open>A round of the Public Goods Game\<close>

lemma concat_singletons:
  "concat (map (\<lambda>(i, x). [h i x]) ys) = map (\<lambda>(i, x). h i x) ys"
  by (induction ys) auto

lemma concat_singletons_filter:
  "concat (map (\<lambda>(i, x). if P i x then [h i x] else []) ys)
     = map (\<lambda>(i, x). h i x) (filter (\<lambda>(i, x). P i x) ys)"
  by (induction ys) auto

lemma map_of_map_key:
  "a \<in> set xs \<Longrightarrow> distinct (map f xs) \<Longrightarrow> map_of (map (\<lambda>x. (f x, g x)) xs) (f a) = Some (g a)"
  by (induction xs) (auto simp: rev_image_eqI)

text \<open>
  C7. In a round of the Public Goods Game with endowment \<open>E\<close> and multiplier \<open>m\<close> in which
  every one of the \<open>k\<close> participating agents (\<open>k \<ge> 1\<close>, agents with pairwise different
  names) decides \<open>COOPERATE\<close>, the round is completed and each agent's payoff is
  \<open>0.2 * E + 0.8 * E * m\<close>, whatever \<open>k\<close> is.
\<close>

theorem PublicGoodsGame_all_cooperate:
  assumes ne: "agents \<noteq> []"
    and dist: "distinct (map name agents)"
    and coop: "\<And>i. i < length agents \<Longrightarrow> \<exists>d. decide i = Some d \<and> action d = COOPERATE"
  shows "\<exists>self' agents' rr.
      PublicGoodsGame_play_round self agents decide = Inr (self', agents', rr) \<and>
      (\<forall>a \<in> set agents.
         getitem (pg_payoffs rr) (name a)
           = Inr (0.2 * endowment self + 0.8 * endowment self * multiplier self))"
proof -
  define self1 where "self1 = self\<lparr>round_number := round_number self + 1\<rparr>"
  define contributions where "contributions =
            dict_of [(name agent,
                      case decide i of
                        Some decision \<Rightarrow>
                          if action decision = COOPERATE
                          then endowment self1 * 0.8 else endowment self1 * 0.2
                      | None \<Rightarrow> 0). (i, agent) \<leftarrow> enumerate 0 agents]"
  define decisions where "decisions =
            dict_of [(name agent,
                      case decide i of
                        Some decision \<Rightarrow> decision
                      | None \<Rightarrow> error_fallback DEFECT). (i, agent) \<leftarrow> enumerate 0 agents]"
  define round_payoffs where "round_payoffs equal_share =
            dict_of [(agent_name, (endowment self1 - contribution) + equal_share).
                     (agent_name, contribution) \<leftarrow> contributions]" for equal_share
  define upd where "upd rp agent =
               (let other_agents_cooperation =
                      sum_list [1::int. (nm, contrib) \<leftarrow> contributions,
                                nm \<noteq> name agent \<and> contrib > endowment self1 * 0.5];
                    avg_cooperation =
                      (of_int other_agents_cooperation :: real)
                      / of_nat (max 1 (length agents - 1))
                in case getitem rp (name agent) of
                     Inl e \<Rightarrow> Inl e
                   | Inr payoff \<Rightarrow>
                       (case getitem decisions (name agent) of
                          Inl e \<Rightarrow> Inl e
                        | Inr decision \<Rightarrow>
                            Inr (update_state agent ''public''
                                   (if avg_cooperation > 0.5 then COOPERATE else DEFECT)
                                   payoff (action decision))))" for rp agent
  have unfold: "PublicGoodsGame_play_round self agents decide =
     (case py_truediv (sum_list (map snd contributions) * multiplier self1)
             (of_nat (length agents)) of
        Inl e \<Rightarrow> Inl e
      | Inr equal_share \<Rightarrow>
          (case mapE (upd (round_payoffs equal_share)) agents of
             Inl e \<Rightarrow> Inl e
           | Inr agents1 \<Rightarrow>
               Inr (self1\<lparr>contribution_history := contribution_history self1 @ [contributions]\<rparr>,
                    agents1,
                    \<lparr>pg_round = round_number
                         (self1\<lparr>contribution_history :=
                                  contribution_history self1 @ [contributions]\<rparr>),
                     pg_contributions = contributions,
                     pg_total_contributions = sum_list (map snd contributions),
                     pg_public_pool = sum_list (map snd contributions) * multiplier self1,
                     pg_payoffs = round_payoffs equal_share,
                     pg_decisions = decisions\<rparr>)))"
    unfolding PublicGoodsGame_play_round_def Let_def self1_def contributions_def decisions_def
      round_payoffs_def upd_def
    by (rule refl)
  define E where "E = endowment self"
  define m where "m = multiplier self"
  have E1: "endowment self1 = E" and m1: "multiplier self1 = m"
    by (simp_all add: self1_def E_def m_def)
  have c0: "map (\<lambda>(i, agent). (name agent,
              case decide i of
                Some decision \<Rightarrow> if action decision = COOPERATE then E * 0.8 else E * 0.2
              | None \<Rightarrow> 0)) (enumerate 0 agents)
           = map (\<lambda>a. (name a, E * 0.8)) agents"
  proof (rule enumerate_map_all)
    fix i assume "i < length agents"
    from coop [OF this] obtain d where "decide i = Some d" "action d = COOPERATE" by blast
    then show "(name (agents ! i),
              case decide i of
                Some decision \<Rightarrow> if action decision = COOPERATE then E * 0.8 else E * 0.2
              | None \<Rightarrow> 0) = (name (agents ! i), E * 0.8)" by simp
  qed
  have keys_c: "distinct (map fst (map (\<lambda>a. (name a, E * 0.8)) agents))"
    using dist by (simp add: comp_def)
  have c: "contributions = map (\<lambda>a. (name a, E * 0.8)) agents"
    unfolding contributions_def E1 concat_singletons c0 by (rule dict_of_distinct [OF keys_c])
  have names: "map (\<lambda>x. name (snd x)) (enumerate 0 agents) = map name agents"
    by (rule nth_equalityI) (simp_all add: nth_enumerate_eq)
  have keys_d: "distinct (map fst (map (\<lambda>(i, agent). (name agent,
                      case decide i of
                        Some decision \<Rightarrow> decision
                      | None \<Rightarrow> error_fallback DEFECT)) (enumerate 0 agents)))"
    using dist names by (simp add: comp_def case_prod_unfold)
  have d: "map fst decisions = map name agents"
    unfolding decisions_def concat_singletons dict_of_distinct [OF keys_d]
    using names by (simp add: comp_def case_prod_unfold)
  have k: "real (length agents) \<noteq> 0" using ne by simp
  have total: "sum_list (map snd contributions) = real (length agents) * (E * 0.8)"
    by (simp add: c comp_def sum_list_triv)
  have share: "py_truediv (sum_list (map snd contributions) * multiplier self1)
             (of_nat (length agents)) = Inr (E * 0.8 * m)"
    using k by (simp add: py_truediv_def total m1)
  have keys_p: "distinct (map fst (map (\<lambda>a. (name a, 0.2 * E + 0.8 * E * m)) agents))"
    using dist by (simp add: comp_def)
  have rp: "round_payoffs (E * 0.8 * m) = map (\<lambda>a. (name a, 0.2 * E + 0.8 * E * m)) agents"
  proof -
    have "[(agent_name, (E - contribution) + E * 0.8 * m).
            (agent_name, contribution) \<leftarrow> map (\<lambda>a. (name a, E * 0.8)) agents]
          = map (\<lambda>a. (name a, 0.2 * E + 0.8 * E * m)) agents"
      by (induction agents) (simp_all add: algebra_simps)
    then show ?thesis
      unfolding round_payoffs_def E1 c by (simp only: dict_of_distinct [OF keys_p])
  qed
  have pay: "getitem (round_payoffs (E * 0.8 * m)) (name a) = Inr (0.2 * E + 0.8 * E * m)"
    if "a \<in> set agents" for a
    unfolding rp by (rule getitem_Some) (rule map_of_map_key [OF that dist])
  have dec: "\<exists>dd. getitem decisions (name a) = Inr dd" if "a \<in> set agents" for a
  proof -
    have "name a \<in> fst ` set decisions" using that d by (metis image_eqI image_set list.set_map)
    then obtain dd where "map_of decisions (name a) = Some dd"
      by (metis map_of_eq_None_iff not_Some_eq)
    then show ?thesis by (auto simp: getitem_def)
  qed
  have step: "\<exists>a'. upd (round_payoffs (E * 0.8 * m)) a = Inr a'" if "a \<in> set agents" for a
    using pay [OF that] dec [OF that] by (auto simp: upd_def Let_def)
  then obtain g where g: "\<And>a. a \<in> set agents \<Longrightarrow> upd (round_payoffs (E * 0.8 * m)) a = Inr (g a)"
    by metis
  have loop: "mapE (upd (round_payoffs (E * 0.8 * m))) agents = Inr (map g agents)"
    by (rule mapE_total) (rule g)
  show ?thesis
    unfolding unfold share sum.case loop using pay by (simp add: E_def m_def)
qed

theorem PublicGoodsGame_all_cooperate_witness:
  "[alice, bob, carol] \<noteq> [] \<and> distinct (map name [alice, bob, carol]) \<and>
   (\<exists>d. Some cooperate_decision = Some d \<and> action d = COOPERATE) \<and>
   (\<exists>self' agents' rr.
      PublicGoodsGame_play_round (PublicGoodsGame_init 2 10) [alice, bob, carol]
        (\<lambda>i. Some cooperate_decision) = Inr (self', agents', rr) \<and>
      (\<forall>a \<in> set [alice, bob, carol]. getitem (pg_payoffs rr) (name a) = Inr 18))"
proof -
  have h1: "[alice, bob, carol] \<noteq> []" by simp
  have h2: "distinct (map name [alice, bob, carol])"
    by (simp add: alice_def bob_def carol_def)
  have h3: "\<exists>d. (\<lambda>i. Some cooperate_decision) i = Some d \<and> action d = COOPERATE" for i :: nat
    by (simp add: cooperate_decision_def)
  have v: "0.2 * endowment (PublicGoodsGame_init 2 10)
      + 0.8 * endowment (PublicGoodsGame_init 2 10) * multiplier (PublicGoodsGame_init 2 10) = 18"
    by (simp add: PublicGoodsGame_init_def)
  show ?thesis
    using PublicGoodsGame_all_cooperate [OF h1 h2 h3, of "PublicGoodsGame_init 2 10"]
    unfolding v using h1 h2 h3 by simp
qed

subsection \<open>Resetting a game\<close>

lemma reset_frame:
  "round_number (reset g) = 0 \<and> results_history (reset g) = [] \<and>
   BaseGame.more (reset g) = BaseGame.more g \<and>
   game_name (reset g) = game_name g \<and> game_type (reset g) = game_type g"
  by (simp add: reset_def)

lemma pd_after_round_value:
  "pd_after_round =
     \<lparr>game_name = ''Prisoner's Dilemma'', game_type = PRISONERS_DILEMMA, round_number = 1,
      results_history = [], reward_matrix = prisoner_dilemma,
      game_history = [(COOPERATE, COOPERATE)]\<rparr>"
  by (simp add: pd_after_round_def PrisonersDilemma_play_round_def PrisonersDilemma_init_def
      Let_def cooperate_decision_def calculate_round_payoffs_def get_payoffs_def
      prisoner_dilemma_def)

text \<open>
  C2. \<open>reset()\<close> sets the round counter to 0 and empties \<open>results_history\<close>; it has no
  access to any agent. The per-round histories that the subclasses add (\<open>game_history\<close> of
  the Prisoner's Dilemma, \<open>contribution_history\<close> of the Public Goods Game) belong to the
  part of the object that \<open>reset\<close> leaves as it is (\<open>reset_frame\<close>): after one played
  round of the Prisoner's Dilemma, \<open>reset()\<close> leaves the round's action pair in
  \<open>game_history\<close>.
\<close>

theorem reset_keeps_game_history:
  "round_number pd_after_round = 1 \<and>
   game_history pd_after_round = [(COOPERATE, COOPERATE)] \<and>
   round_number (reset pd_after_round) = 0 \<and>
   results_history (reset pd_after_round) = [] \<and>
   game_history (reset pd_after_round) = [(COOPERATE, COOPERATE)] \<and>
   game_history (reset pd_after_round) \<noteq> []"
  by (simp add: pd_after_round_value reset_def)

end
